theory Spec2Isabelle
  imports Main "HOL-Library.AList" "HOL-Library.Char_ord" "HOL-Library.List_Lexorder"
begin

section \<open>The availability API of \<open>src/server/api.js\<close>\<close>

text \<open>
  The file defines five JSON routes over one table of a remote store. Each route awaits
  one query of the store client, destructures the reply into \<open>data\<close> and \<open>error\<close>, and
  answers. The development has three layers:
  \<^item> the values and objects that travel (JS values, store rows, replies, responses, the
    console);
  \<^item> the handlers, translated from the source as functions of the request and of the
    store's reply;
  \<^item> the table behind the client, which the file imports from the module \<open>./supabase\<close>
    and which is modelled from the specification, and the routes as the composition of
    query and handler.
\<close>

subsection \<open>JavaScript values\<close>

text \<open>
  The values a request body or a table column can hold. \<open>Undefined\<close> is what reading an
  absent property gives. Numbers are restricted to integers: the handlers never compute
  with them, they only test them for truthiness.
\<close>

datatype jsval =
    Undefined
  | Null
  | Bool bool
  | Num int
  | Str string
  | Arr "jsval list"
  | Obj "(string \<times> jsval) list"

text \<open>JavaScript's \<open>ToBoolean\<close>, as used by \<open>||\<close>: every array and object is truthy.\<close>

fun truthy :: "jsval \<Rightarrow> bool" where
  "truthy Undefined = False"
| "truthy Null = False"
| "truthy (Bool b) = b"
| "truthy (Num n) = (n \<noteq> 0)"
| "truthy (Str s) = (s \<noteq> [])"
| "truthy (Arr xs) = True"
| "truthy (Obj kvs) = True"

text \<open>\<open>a || b\<close>\<close>

definition js_or :: "jsval \<Rightarrow> jsval \<Rightarrow> jsval" where
  "js_or a b = (if truthy a then a else b)"

text \<open>\<open>s.includes(p)\<close> on strings: \<open>p\<close> occurs in \<open>s\<close> as a contiguous segment.\<close>

fun str_includes :: "string \<Rightarrow> string \<Rightarrow> bool" where
  "str_includes [] p = (p = [])"
| "str_includes (c # cs) p = (take (length p) (c # cs) = p \<or> str_includes cs p)"

subsection \<open>Decimal strings\<close>

text \<open>The value of a string of decimal digits, \<open>None\<close> when a character is no digit.\<close>

definition digit :: "char \<Rightarrow> int option" where
  "digit c =
     (if CHR ''0'' \<le> c \<and> c \<le> CHR ''9'' then Some (int (of_char c) - 48) else None)"

fun decimal :: "string \<Rightarrow> int \<Rightarrow> int option" where
  "decimal [] acc = Some acc"
| "decimal (c # cs) acc =
     (case digit c of None \<Rightarrow> None | Some v \<Rightarrow> decimal cs (10 * acc + v))"

subsection \<open>Objects as property lists\<close>

text \<open>
  The handler of the list route uses a plain object, created by \<open>{}\<close>, as a dictionary
  from date strings to entries. Such an object is held here as the list of its own
  properties in the order in which \<open>JSON.stringify\<close> writes them: first the keys that are
  array indices, in ascending numeric order, then the other keys in the order of their
  creation.

  A key is an array index when it is the canonical decimal form (no leading zero) of a
  number below \<open>2^32 - 1\<close>.
\<close>

fun canonical :: "string \<Rightarrow> bool" where
  "canonical [] = False"
| "canonical (c # cs) = (c \<noteq> CHR ''0'' \<or> cs = [])"

definition array_index :: "string \<Rightarrow> int option" where
  "array_index k =
     (case decimal k 0 of
        None \<Rightarrow> None
      | Some n \<Rightarrow> if canonical k \<and> n < 4294967295 then Some n else None)"

text \<open>A new property with array index \<open>i\<close> takes its place among the array indices.\<close>

fun insert_index :: "int \<Rightarrow> string \<Rightarrow> 'v \<Rightarrow> (string \<times> 'v) list \<Rightarrow> (string \<times> 'v) list" where
  "insert_index i k v [] = [(k, v)]"
| "insert_index i k v (p # ps) =
     (case array_index (fst p) of
        None \<Rightarrow> (k, v) # p # ps
      | Some j \<Rightarrow> if j < i then p # insert_index i k v ps else (k, v) # p # ps)"

text \<open>
  The assignment \<open>obj[k] = v\<close>, for \<open>v\<close> an object. The key \<open>__proto__\<close> is the accessor
  inherited from \<open>Object.prototype\<close>: assigning to it replaces the prototype of \<open>obj\<close> and
  creates no property of its own, so the listed properties stay as they are. Any other
  key that exists keeps its place and takes the new value; a new key is created, at the
  end unless it is an array index.
\<close>

definition set_property :: "string \<Rightarrow> 'v \<Rightarrow> (string \<times> 'v) list \<Rightarrow> (string \<times> 'v) list" where
  "set_property k v obj =
     (if k = ''__proto__'' then obj
      else if k \<in> set (map fst obj) then AList.update k v obj
      else (case array_index k of
              None \<Rightarrow> obj @ [(k, v)]
            | Some i \<Rightarrow> insert_index i k v obj))"

subsection \<open>Rows, replies, responses\<close>

text \<open>
  A row of the table \<open>availability\<close>, with the store's column names. The column \<open>date\<close>
  is the key and holds a string; the other three columns hold whatever was saved.
\<close>

record row =
  row_date :: string
  row_status :: jsval
  row_message :: jsval
  row_time_slots :: jsval

text \<open>The error object of a reply, with the two properties the handlers read.\<close>

record store_error =
  err_code :: string
  err_message :: string

text \<open>
  What awaiting a query yields: \<open>{ data, error }\<close>, where \<open>None\<close> stands for \<open>null\<close>.
\<close>

record 'a reply =
  reply_data :: "'a option"
  reply_error :: "store_error option"

text \<open>The request body of the save route, with the wire's property names.\<close>

record save_request =
  body_date :: string
  body_status :: jsval
  body_message :: jsval
  body_timeSlots :: jsval

text \<open>The objects the handlers build for \<open>res.json\<close>.\<close>

record day_entry =
  day_status :: jsval
  day_message :: jsval
  day_timeSlots :: jsval

record next_entry =
  next_date :: string
  next_timeSlots :: jsval

record date_entry =
  entry_date :: string
  entry_status :: jsval
  entry_message :: jsval
  entry_timeSlots :: jsval

text \<open>
  The bodies of the responses, one constructor for each object literal passed to
  \<open>res.json\<close>:
  \<^item> \<open>Listing days nextAvailable lastUpdated\<close>, the object \<open>days\<close> as the list of its own
    properties and \<open>lastUpdated\<close> as the instant in milliseconds;
  \<^item> \<open>Single e\<close> for the single-date read;
  \<^item> \<open>Saved data\<close> is \<open>{ success: true, data }\<close> and \<open>Deleted\<close> is \<open>{ success: true }\<close>;
  \<^item> \<open>Connected\<close> is \<open>{ status: 'connected' }\<close> and \<open>Disconnected m\<close> is
    \<open>{ status: 'disconnected', error: m }\<close>;
  \<^item> \<open>Failed m\<close> is \<open>{ error: m }\<close>.
\<close>

datatype body =
    Listing "(string \<times> day_entry) list" "next_entry option" int
  | Single date_entry
  | Saved "row list option"
  | Deleted
  | Connected
  | Disconnected string
  | Failed string

record response =
  http_status :: nat
  http_body :: body

text \<open>
  What a \<open>catch\<close> block can receive: the store's error object, thrown by the handler,
  or the \<open>TypeError\<close> of calling a method on \<open>null\<close>.
\<close>

datatype thrown = Store_Error store_error | Type_Error

datatype log_line =
    Console_error string thrown
  | Console_log string

text \<open>A handler's outcome: the response sent and the lines written to the console.\<close>

type_synonym outcome = "response \<times> log_line list"

definition ok :: "body \<Rightarrow> outcome" where
  "ok b = (\<lparr>http_status = 200, http_body = b\<rparr>, [])"

text \<open>
  The common shape of the first four \<open>catch\<close> blocks:
  \<open>console.error(label, error); res.status(500).json({ error: generic })\<close>.
\<close>

definition caught :: "string \<Rightarrow> string \<Rightarrow> thrown \<Rightarrow> outcome" where
  "caught label generic t =
     (\<lparr>http_status = 500, http_body = Failed generic\<rparr>, [Console_error label t])"

subsection \<open>The handlers\<close>

text \<open>
  The time value of \<open>new Date(s)\<close> for a string \<open>s\<close>, in milliseconds since the epoch,
  \<open>None\<close> for an invalid date, whose time value is \<open>NaN\<close>. The runtime's parser is a
  parameter \<open>parse\<close>, since outside the ISO format it is left to the implementation.
  Whatever the parser, the string \<open>__proto__\<close> is no date.
\<close>

definition time_value :: "(string \<Rightarrow> int option) \<Rightarrow> string \<Rightarrow> int option" where
  "time_value parse s = (if s = ''__proto__'' then None else parse s)"

text \<open>
  \<open>new Date(day.date) >= new Date()\<close>: the comparison of the two time values, false when
  the first is \<open>NaN\<close>. \<open>now\<close> is the clock's reading: the handler reads the clock once for
  each row it tests and once more for \<open>lastUpdated\<close>, and the model takes all these
  readings of one request as the same instant.
\<close>

definition on_or_after :: "(string \<Rightarrow> int option) \<Rightarrow> int \<Rightarrow> string \<Rightarrow> bool" where
  "on_or_after parse now d =
     (case time_value parse d of None \<Rightarrow> False | Some t \<Rightarrow> t \<ge> now)"

text \<open>
  The body of the \<open>forEach\<close> callback of the list route, on the two variables it
  assigns: the object \<open>days\<close> and \<open>nextAvailable\<close>.
\<close>

definition each_day ::
  "(string \<Rightarrow> int option) \<Rightarrow> int \<Rightarrow> row \<Rightarrow>
   (string \<times> day_entry) list \<times> next_entry option \<Rightarrow>
   (string \<times> day_entry) list \<times> next_entry option" where
  "each_day parse now day acc =
     (case acc of (days, nextAvailable) \<Rightarrow>
        (set_property (row_date day)
           \<lparr>day_status = row_status day,
            day_message = row_message day,
            day_timeSlots = row_time_slots day\<rparr> days,
         if nextAvailable = None \<and> row_status day = Str ''available''
              \<and> on_or_after parse now (row_date day)
         then Some \<lparr>next_date = row_date day, next_timeSlots = row_time_slots day\<rparr>
         else nextAvailable))"

text \<open>\<open>data.forEach(day => ...)\<close>, from \<open>days = {}\<close> and \<open>nextAvailable = null\<close> onwards.\<close>

fun forEach_day ::
  "(string \<Rightarrow> int option) \<Rightarrow> int \<Rightarrow> row list \<Rightarrow>
   (string \<times> day_entry) list \<times> next_entry option \<Rightarrow>
   (string \<times> day_entry) list \<times> next_entry option" where
  "forEach_day parse now [] acc = acc"
| "forEach_day parse now (day # rest) acc =
     forEach_day parse now rest (each_day parse now day acc)"

text \<open>\<open>GET /api/availability\<close>, after the query.\<close>

definition get_availability ::
  "(string \<Rightarrow> int option) \<Rightarrow> int \<Rightarrow> row list reply \<Rightarrow> outcome" where
  "get_availability parse now r =
     (case reply_error r of
        Some e \<Rightarrow>
          caught ''Error fetching availability:'' ''Failed to fetch availability''
            (Store_Error e)
      | None \<Rightarrow>
          (case reply_data r of
             None \<Rightarrow>
               caught ''Error fetching availability:'' ''Failed to fetch availability''
                 Type_Error
           | Some data \<Rightarrow>
               (case forEach_day parse now data ([], None) of
                  (days, nextAvailable) \<Rightarrow> ok (Listing days nextAvailable now))))"

text \<open>
  \<open>if (error && error.code !== 'PGRST116') throw error\<close>: what the statement throws,
  if anything.
\<close>

definition thrown_unless_not_found :: "store_error option \<Rightarrow> store_error option" where
  "thrown_unless_not_found error =
     (case error of
        None \<Rightarrow> None
      | Some e \<Rightarrow> if err_code e \<noteq> ''PGRST116'' then Some e else None)"

text \<open>\<open>GET /api/availability/:date\<close>, after the query; \<open>d\<close> is \<open>req.params.date\<close>.\<close>

definition get_availability_date :: "string \<Rightarrow> row reply \<Rightarrow> outcome" where
  "get_availability_date d r =
     (case thrown_unless_not_found (reply_error r) of
        Some e \<Rightarrow> caught ''Error fetching date:'' ''Failed to fetch date'' (Store_Error e)
      | None \<Rightarrow>
          (case reply_data r of
             None \<Rightarrow>
               ok (Single \<lparr>entry_date = d, entry_status = Str ''available'',
                           entry_message = Null, entry_timeSlots = Arr []\<rparr>)
           | Some data \<Rightarrow>
               ok (Single \<lparr>entry_date = row_date data,
                           entry_status = row_status data,
                           entry_message = row_message data,
                           entry_timeSlots = js_or (row_time_slots data) (Arr [])\<rparr>)))"

text \<open>
  \<open>POST /api/availability\<close>: the object handed to \<open>upsert\<close>, built from the
  destructured body, and the answer after the query.
\<close>

definition upsert_payload :: "save_request \<Rightarrow> row" where
  "upsert_payload b =
     \<lparr>row_date = body_date b,
      row_status = body_status b,
      row_message = body_message b,
      row_time_slots = body_timeSlots b\<rparr>"

definition post_availability :: "row list reply \<Rightarrow> outcome" where
  "post_availability r =
     (case reply_error r of
        Some e \<Rightarrow>
          caught ''Error saving availability:'' ''Failed to save availability''
            (Store_Error e)
      | None \<Rightarrow> ok (Saved (reply_data r)))"

text \<open>\<open>DELETE /api/availability/:date\<close>, after the query.\<close>

definition delete_availability :: "unit reply \<Rightarrow> outcome" where
  "delete_availability r =
     (case reply_error r of
        Some e \<Rightarrow>
          caught ''Error deleting availability:'' ''Failed to delete availability''
            (Store_Error e)
      | None \<Rightarrow> ok Deleted)"

text \<open>
  \<open>GET /api/status\<close>, after the query. This \<open>catch\<close> block differs from the others:
  it puts \<open>error.message\<close> into the response.
\<close>

definition get_status :: "row list reply \<Rightarrow> outcome" where
  "get_status r =
     (case reply_error r of
        Some e \<Rightarrow>
          (\<lparr>http_status = 500, http_body = Disconnected (err_message e)\<rparr>,
           (if str_includes (err_message e) ''does not exist''
            then [Console_log ''Table does not exist, would create it here'']
            else [])
           @ [Console_error ''Database connection error:'' (Store_Error e)])
      | None \<Rightarrow> ok Connected)"

subsection \<open>The table behind the store client\<close>

text \<open>
  Modelled from the spec: the store client of the module \<open>./supabase\<close>, which the file
  imports, and the table \<open>availability\<close> behind it, "a tabular data store reachable over
  network" whose key is \<open>date\<close>. The table is held as the list of its rows. Every query
  can also fail for reasons outside the table, the spec's StoreFailure (connectivity,
  malformed query, schema mismatch): the parameter \<open>fault\<close> is the error the store raises
  on this call, \<open>None\<close> when it raises none. A failed query returns no data and leaves
  the table as it was.
\<close>

type_synonym table = "row list"

definition failure :: "store_error \<Rightarrow> 'a reply" where
  "failure e = \<lparr>reply_data = None, reply_error = Some e\<rparr>"

definition rows_for :: "string \<Rightarrow> table \<Rightarrow> row list" where
  "rows_for d t = filter (\<lambda>r. row_date r = d) t"

text \<open>
  Modelled from the spec: \<open>from('availability').select('*').order('date', { ascending:
  true })\<close> of the absent client module, "fetch all rows ordered by date ascending". Dates
  are compared as strings, which for the form \<open>YYYY-MM-DD\<close> is the calendar's order.
\<close>

definition select_ordered :: "table \<Rightarrow> store_error option \<Rightarrow> row list reply" where
  "select_ordered t fault =
     (case fault of
        Some e \<Rightarrow> failure e
      | None \<Rightarrow> \<lparr>reply_data = Some (sort_key row_date t), reply_error = None\<rparr>)"

text \<open>The error of a \<open>single()\<close> that did not find exactly one row.\<close>

definition row_not_found :: store_error where
  "row_not_found =
     \<lparr>err_code = ''PGRST116'',
      err_message = ''JSON object requested, multiple (or no) rows returned''\<rparr>"

text \<open>
  Modelled from the spec: \<open>select('*').eq('date', d).single()\<close> of the absent client
  module, "fetch the row matching the path's date value", where the absence of a row is
  the error kind NotFound, told apart from every other failure by its code.
\<close>

definition select_single :: "string \<Rightarrow> table \<Rightarrow> store_error option \<Rightarrow> row reply" where
  "select_single d t fault =
     (case fault of
        Some e \<Rightarrow> failure e
      | None \<Rightarrow>
          (case rows_for d t of
             [r] \<Rightarrow> \<lparr>reply_data = Some r, reply_error = None\<rparr>
           | _ \<Rightarrow> \<lparr>reply_data = None, reply_error = Some row_not_found\<rparr>))"

text \<open>
  Modelled from the spec: \<open>upsert(row, { onConflict: 'date' })\<close> of the absent client
  module, "an upsert keyed on date: insert if absent, overwrite all fields if present".
  The reply of a successful upsert carries no rows.
\<close>

definition upsert :: "row \<Rightarrow> table \<Rightarrow> store_error option \<Rightarrow> row list reply \<times> table" where
  "upsert p t fault =
     (case fault of
        Some e \<Rightarrow> (failure e, t)
      | None \<Rightarrow>
          (\<lparr>reply_data = None, reply_error = None\<rparr>,
           if rows_for (row_date p) t = [] then t @ [p]
           else map (\<lambda>r. if row_date r = row_date p then p else r) t))"

text \<open>
  Modelled from the spec: \<open>delete().eq('date', d)\<close> of the absent client module, "remove
  the row for the given date if present; deleting a non-existent date is not an error".
\<close>

definition delete_eq :: "string \<Rightarrow> table \<Rightarrow> store_error option \<Rightarrow> unit reply \<times> table" where
  "delete_eq d t fault =
     (case fault of
        Some e \<Rightarrow> (failure e, t)
      | None \<Rightarrow>
          (\<lparr>reply_data = None, reply_error = None\<rparr>,
           filter (\<lambda>r. row_date r \<noteq> d) t))"

text \<open>
  Modelled from the spec: \<open>select('*').limit(1)\<close> of the absent client module, "a trivial
  existence-check query against the store".
\<close>

definition select_limit :: "table \<Rightarrow> store_error option \<Rightarrow> row list reply" where
  "select_limit t fault =
     (case fault of
        Some e \<Rightarrow> failure e
      | None \<Rightarrow> \<lparr>reply_data = Some (take 1 t), reply_error = None\<rparr>)"

text \<open>The invariant of the table: \<open>date\<close> identifies at most one row.\<close>

definition unique_dates :: "table \<Rightarrow> bool" where
  "unique_dates t = distinct (map row_date t)"

subsection \<open>The routes\<close>

text \<open>
  Each route is its query followed by its handler. The two routes that write return the
  table after the request as well.
\<close>

definition route_list ::
  "(string \<Rightarrow> int option) \<Rightarrow> int \<Rightarrow> table \<Rightarrow> store_error option \<Rightarrow> outcome" where
  "route_list parse now t fault = get_availability parse now (select_ordered t fault)"

definition route_read :: "string \<Rightarrow> table \<Rightarrow> store_error option \<Rightarrow> outcome" where
  "route_read d t fault = get_availability_date d (select_single d t fault)"

definition route_save ::
  "save_request \<Rightarrow> table \<Rightarrow> store_error option \<Rightarrow> outcome \<times> table" where
  "route_save b t fault =
     (case upsert (upsert_payload b) t fault of (r, t') \<Rightarrow> (post_availability r, t'))"

definition route_delete :: "string \<Rightarrow> table \<Rightarrow> store_error option \<Rightarrow> outcome \<times> table" where
  "route_delete d t fault =
     (case delete_eq d t fault of (r, t') \<Rightarrow> (delete_availability r, t'))"

definition route_status :: "table \<Rightarrow> store_error option \<Rightarrow> outcome" where
  "route_status t fault = get_status (select_limit t fault)"

subsection \<open>Date-only strings\<close>

text \<open>
  The handlers are stated for any parser. For concrete runs, this is the time value of
  \<open>new Date(s)\<close> on the date-only form \<open>YYYY-MM-DD\<close>, which is read as midnight UTC.
  Other strings are left invalid here.
\<close>

definition leap_year :: "int \<Rightarrow> bool" where
  "leap_year y = (y mod 4 = 0 \<and> (y mod 100 \<noteq> 0 \<or> y mod 400 = 0))"

definition days_in_month :: "int \<Rightarrow> int \<Rightarrow> int" where
  "days_in_month y m =
     (if m = 2 then (if leap_year y then 29 else 28)
      else if m = 4 \<or> m = 6 \<or> m = 9 \<or> m = 11 then 30 else 31)"

text \<open>Days from 1970-01-01 to the given day of the proleptic Gregorian calendar.\<close>

definition days_from_civil :: "int \<Rightarrow> int \<Rightarrow> int \<Rightarrow> int" where
  "days_from_civil y m d =
     (let y' = (if m \<le> 2 then y - 1 else y);
          era = y' div 400;
          yoe = y' - era * 400;
          doy = (153 * (if m > 2 then m - 3 else m + 9) + 2) div 5 + d - 1;
          doe = yoe * 365 + yoe div 4 - yoe div 100 + doy
      in era * 146097 + doe - 719468)"

definition ms_per_day :: int where
  "ms_per_day = 86400000"

definition parse_date_only :: "string \<Rightarrow> int option" where
  "parse_date_only s =
     (if length s = 10 \<and> s ! 4 = CHR ''-'' \<and> s ! 7 = CHR ''-'' then
        (case (decimal (take 4 s) 0, decimal (take 2 (drop 5 s)) 0, decimal (drop 8 s) 0) of
           (Some y, Some m, Some d) \<Rightarrow>
             if 1 \<le> m \<and> m \<le> 12 \<and> 1 \<le> d \<and> d \<le> days_in_month y m
             then Some (days_from_civil y m d * ms_per_day)
             else None
         | _ \<Rightarrow> None)
      else None)"

text \<open>The UTC calendar day, counted from the epoch, that an instant falls on.\<close>

definition utc_day :: "int \<Rightarrow> int" where
  "utc_day t = t div ms_per_day"

subsection \<open>Reading a response, and vocabulary for the statements\<close>

text \<open>The two computed fields of a list response.\<close>

definition listing_days :: "outcome \<Rightarrow> (string \<times> day_entry) list" where
  "listing_days out = (case http_body (fst out) of Listing days n u \<Rightarrow> days | _ \<Rightarrow> [])"

definition listing_next :: "outcome \<Rightarrow> next_entry option" where
  "listing_next out = (case http_body (fst out) of Listing days n u \<Rightarrow> n | _ \<Rightarrow> None)"

text \<open>
  The part of the callback's condition that depends on the row alone, and the two
  objects the callback builds from a row.
\<close>

definition qualifies :: "(string \<Rightarrow> int option) \<Rightarrow> int \<Rightarrow> row \<Rightarrow> bool" where
  "qualifies parse now r =
     (row_status r = Str ''available'' \<and> on_or_after parse now (row_date r))"

definition day_of_row :: "row \<Rightarrow> day_entry" where
  "day_of_row r =
     \<lparr>day_status = row_status r, day_message = row_message r,
      day_timeSlots = row_time_slots r\<rparr>"

definition next_of_row :: "row \<Rightarrow> next_entry" where
  "next_of_row r = \<lparr>next_date = row_date r, next_timeSlots = row_time_slots r\<rparr>"

text \<open>Slot data as the data model has it: a sequence, or null, or missing.\<close>

fun slot_data :: "jsval \<Rightarrow> bool" where
  "slot_data (Arr xs) = True"
| "slot_data Null = True"
| "slot_data Undefined = True"
| "slot_data v = False"

text \<open>The record a single-date read synthesizes for a date without a row.\<close>

definition default_entry :: "string \<Rightarrow> date_entry" where
  "default_entry d =
     \<lparr>entry_date = d, entry_status = Str ''available'', entry_message = Null,
      entry_timeSlots = Arr []\<rparr>"

subsection \<open>Concrete inputs\<close>

text \<open>
  The scenario of the specification: 2024-01-01 is available at 9am, 2024-01-02 is
  closed. The rows are held in the order opposite to the dates'.
\<close>

definition scenario :: table where
  "scenario =
     [\<lparr>row_date = ''2024-01-02'', row_status = Str ''unavailable'',
       row_message = Str ''closed'', row_time_slots = Arr []\<rparr>,
      \<lparr>row_date = ''2024-01-01'', row_status = Str ''available'',
       row_message = Null, row_time_slots = Arr [Str ''9am'']\<rparr>]"

text \<open>Two available days, and a day saved without slot data.\<close>

definition two_open_days :: table where
  "two_open_days =
     [\<lparr>row_date = ''2024-01-01'', row_status = Str ''available'',
       row_message = Null, row_time_slots = Arr [Str ''9am'']\<rparr>,
      \<lparr>row_date = ''2024-01-02'', row_status = Str ''available'',
       row_message = Null, row_time_slots = Arr [Str ''10am'']\<rparr>]"

definition open_without_slots :: row where
  "open_without_slots =
     \<lparr>row_date = ''2024-01-05'', row_status = Str ''available'',
      row_message = Null, row_time_slots = Null\<rparr>"

text \<open>
  Instants: midnight UTC at the start of 2024-01-01, nine o'clock UTC that morning,
  and midnight UTC at the start of 2023-12-31.
\<close>

definition jan_1_midnight :: int where
  "jan_1_midnight = 1704067200000"

definition jan_1_morning :: int where
  "jan_1_morning = 1704099600000"

definition dec_31_midnight :: int where
  "dec_31_midnight = 1703980800000"

text \<open>
  A request that saves a day under the date string \<open>__proto__\<close>, and a row of that
  date without slot data.
\<close>

definition proto_request :: save_request where
  "proto_request =
     \<lparr>body_date = ''__proto__'', body_status = Str ''available'',
      body_message = Null, body_timeSlots = Arr [Str ''9am'']\<rparr>"

definition proto_without_slots :: row where
  "proto_without_slots =
     \<lparr>row_date = ''__proto__'', row_status = Str ''available'',
      row_message = Null, row_time_slots = Null\<rparr>"

text \<open>A failure of the store, and a request body.\<close>

definition refused :: store_error where
  "refused = \<lparr>err_code = ''08006'', err_message = ''connection refused''\<rparr>"

definition closed_jan_1 :: save_request where
  "closed_jan_1 =
     \<lparr>body_date = ''2024-01-01'', body_status = Str ''unavailable'',
      body_message = Str ''holiday'', body_timeSlots = Arr []\<rparr>"

section \<open>Properties\<close>

subsection \<open>Unfolding the model\<close>

lemmas query_defs =
  select_ordered_def select_single_def upsert_def delete_eq_def select_limit_def
  failure_def rows_for_def row_not_found_def

lemmas handler_defs =
  get_availability_def get_availability_date_def thrown_unless_not_found_def
  post_availability_def
  delete_availability_def get_status_def upsert_payload_def each_day_def
  on_or_after_def time_value_def js_or_def ok_def caught_def

lemmas object_defs =
  set_property_def array_index_def

lemmas route_defs =
  route_list_def route_read_def route_save_def route_delete_def route_status_def

lemmas date_defs =
  parse_date_only_def digit_def days_in_month_def leap_year_def days_from_civil_def
  ms_per_day_def utc_day_def

lemmas input_defs =
  scenario_def two_open_days_def open_without_slots_def jan_1_midnight_def
  jan_1_morning_def dec_31_midnight_def refused_def closed_jan_1_def
  proto_request_def proto_without_slots_def

subsection \<open>Assignments to an object\<close>

lemma map_of_insert_index:
  "array_index k = Some i \<Longrightarrow> map_of (insert_index i k v obj) = (map_of obj)(k \<mapsto> v)"
proof (induction obj)
  case Nil
  show ?case by simp
next
  case (Cons p ps)
  show ?case
  proof (cases "array_index (fst p)")
    case None
    then show ?thesis by (auto simp: fun_eq_iff)
  next
    case (Some j)
    show ?thesis
    proof (cases "j < i")
      case True
      with Some Cons.prems have "fst p \<noteq> k" by auto
      with True Some Cons show ?thesis by (cases p) (auto simp: fun_eq_iff)
    next
      case False
      with Some show ?thesis by (auto simp: fun_eq_iff)
    qed
  qed
qed

lemma map_of_snoc_new:
  "k \<notin> set (map fst obj) \<Longrightarrow> map_of (obj @ [(k, v)]) = (map_of obj)(k \<mapsto> v)"
  by (induction obj) (auto simp: fun_upd_twist)

lemma map_of_set_property:
  "map_of (set_property k v obj) =
     (if k = ''__proto__'' then map_of obj else (map_of obj)(k \<mapsto> v))"
proof (cases "k = ''__proto__'' \<or> k \<in> set (map fst obj)")
  case True
  then show ?thesis by (auto simp: set_property_def update_conv')
next
  case False
  then have new: "k \<notin> set (map fst obj)" and k: "k \<noteq> ''__proto__''" by simp_all
  show ?thesis
  proof (cases "array_index k")
    case None
    have "set_property k v obj = obj @ [(k, v)]"
      using new k None by (simp add: set_property_def)
    with map_of_snoc_new [OF new] k show ?thesis by (simp del: map_of_append)
  next
    case (Some i)
    have "set_property k v obj = insert_index i k v obj"
      using new k Some by (simp add: set_property_def)
    with map_of_insert_index [OF Some] k show ?thesis by simp
  qed
qed

text \<open>
  The order of the listed keys: array indices first and ascending, whenever they were
  created, then the other keys as they came; and nothing under \<open>__proto__\<close>.
\<close>

lemma set_property_order:
  "set_property ''2023'' (4::nat)
     (set_property ''__proto__'' 3
        (set_property ''2024'' 2 (set_property ''2024-01-01'' 1 []))) =
   [(''2023'', 4), (''2024'', 2), (''2024-01-01'', 1)]"
  by (simp add: set_property_def array_index_def digit_def)

subsection \<open>The loop of the list route\<close>

text \<open>
  The loop keeps the first row that qualifies, and leaves in \<open>days\<close>, for every date
  other than \<open>__proto__\<close>, the entry of the last row with that date.
\<close>

lemma find_Some_set: "find P xs = Some x \<Longrightarrow> x \<in> set xs \<and> P x"
  by (induction xs) (auto split: if_splits)

lemma forEach_day_next:
  "snd (forEach_day parse now data (days, na)) =
     (case na of Some n \<Rightarrow> Some n
      | None \<Rightarrow> map_option next_of_row (find (qualifies parse now) data))"
  by (induction data arbitrary: days na)
     (auto simp: each_day_def qualifies_def next_of_row_def split: option.splits)

lemma forEach_day_days:
  "map_of (fst (forEach_day parse now data (days, na))) =
     map_of days ++ map_of (rev (map (\<lambda>r. (row_date r, day_of_row r))
                                   (filter (\<lambda>r. row_date r \<noteq> ''__proto__'') data)))"
proof (induction data arbitrary: days na)
  case Nil
  show ?case by simp
next
  case (Cons day rest)
  let ?kept = "\<lambda>xs. rev (map (\<lambda>r. (row_date r, day_of_row r))
                            (filter (\<lambda>r. row_date r \<noteq> ''__proto__'') xs))"
  have "map_of (fst (forEach_day parse now (day # rest) (days, na))) =
        map_of (set_property (row_date day) (day_of_row day) days) ++ map_of (?kept rest)"
    by (simp add: each_day_def day_of_row_def Cons.IH)
  also have "\<dots> = map_of days ++ map_of (?kept (day # rest))"
    by (simp add: map_of_set_property map_add_upd_left)
  finally show ?case .
qed

lemma forEach_day_lookup:
  assumes "distinct (map row_date data)" and "r \<in> set data"
    and "row_date r \<noteq> ''__proto__''"
  shows "map_of (fst (forEach_day parse now data (days, na))) (row_date r)
           = Some (day_of_row r)"
proof -
  let ?kept = "filter (\<lambda>r. row_date r \<noteq> ''__proto__'') data"
  let ?kvs = "rev (map (\<lambda>r. (row_date r, day_of_row r)) ?kept)"
  have "distinct (map row_date ?kept)"
    using assms(1) by (rule distinct_map_filter)
  then have "distinct (map fst ?kvs)"
    by (simp add: rev_map [symmetric] comp_def)
  moreover have "(row_date r, day_of_row r) \<in> set ?kvs"
    using assms(2,3) by auto
  ultimately have "map_of ?kvs (row_date r) = Some (day_of_row r)"
    by (rule map_of_is_SomeI)
  then show ?thesis
    by (simp add: forEach_day_days map_add_Some_iff)
qed

lemma forEach_day_proto:
  "map_of (fst (forEach_day parse now data (days, na))) ''__proto__''
     = map_of days ''__proto__''"
proof -
  let ?kvs = "rev (map (\<lambda>r. (row_date r, day_of_row r))
                     (filter (\<lambda>r. row_date r \<noteq> ''__proto__'') data))"
  have "''__proto__'' \<notin> fst ` set ?kvs" by auto
  then have "map_of ?kvs ''__proto__'' = None"
    by (simp add: map_of_eq_None_iff)
  then show ?thesis
    by (simp add: forEach_day_days map_add_def)
qed

subsection \<open>The list route on a working store\<close>

lemma route_list_ok:
  "route_list parse now t None =
     (\<lparr>http_status = 200,
       http_body = Listing (fst (forEach_day parse now (sort_key row_date t) ([], None)))
                     (snd (forEach_day parse now (sort_key row_date t) ([], None))) now\<rparr>, [])"
  by (simp add: route_list_def select_ordered_def get_availability_def ok_def
      split: prod.splits)

lemma listing_next_route_list:
  "listing_next (route_list parse now t None) =
     map_option next_of_row (find (qualifies parse now) (sort_key row_date t))"
  by (simp add: route_list_ok listing_next_def forEach_day_next)

lemma listing_days_route_list:
  assumes "unique_dates t" and "r \<in> set t" and "row_date r \<noteq> ''__proto__''"
  shows "map_of (listing_days (route_list parse now t None)) (row_date r)
           = Some (day_of_row r)"
proof -
  have "distinct (map row_date (sort_key row_date t))"
    using assms(1) by (simp add: unique_dates_def distinct_map)
  moreover have "r \<in> set (sort_key row_date t)"
    using assms(2) by simp
  ultimately show ?thesis
    using assms(3) by (simp add: route_list_ok listing_days_def forEach_day_lookup)
qed

lemma listing_days_proto:
  "map_of (listing_days (route_list parse now t None)) ''__proto__'' = None"
  by (simp add: route_list_ok listing_days_def forEach_day_proto)

lemma qualifies_not_proto: "qualifies parse now r \<Longrightarrow> row_date r \<noteq> ''__proto__''"
  by (auto simp: qualifies_def on_or_after_def time_value_def)

lemma get_availability_ok:
  "reply_error r = None \<Longrightarrow> reply_data r = Some data \<Longrightarrow>
   get_availability parse now r =
     (\<lparr>http_status = 200,
       http_body = Listing (fst (forEach_day parse now data ([], None)))
                     (snd (forEach_day parse now data ([], None))) now\<rparr>, [])"
  by (simp add: get_availability_def ok_def split: prod.splits)

lemma listing_next_row:
  assumes "listing_next (route_list parse now t None) = Some n"
  shows "\<exists>r \<in> set t. n = next_of_row r \<and> qualifies parse now r"
proof -
  from assms obtain r where f: "find (qualifies parse now) (sort_key row_date t) = Some r"
    and n: "n = next_of_row r"
    by (auto simp: listing_next_route_list)
  from find_Some_set [OF f] have "r \<in> set t" and "qualifies parse now r" by simp_all
  with n show ?thesis by blast
qed

subsection \<open>The single-date read on a working store\<close>

lemma rows_for_unique:
  "unique_dates t \<Longrightarrow> r \<in> set t \<Longrightarrow> rows_for (row_date r) t = [r]"
  unfolding unique_dates_def rows_for_def
  by (induction t) (auto simp: filter_empty_conv image_iff)

lemma rows_for_empty_iff: "rows_for d t = [] \<longleftrightarrow> d \<notin> set (map row_date t)"
  by (auto simp: rows_for_def filter_empty_conv)

lemma route_read_absent:
  "rows_for d t = [] \<Longrightarrow>
   route_read d t None = (\<lparr>http_status = 200, http_body = Single (default_entry d)\<rparr>, [])"
  by (simp add: route_read_def select_single_def get_availability_date_def ok_def
      thrown_unless_not_found_def row_not_found_def default_entry_def)

lemma route_read_present:
  "rows_for d t = [r] \<Longrightarrow>
   route_read d t None =
     (\<lparr>http_status = 200,
       http_body = Single \<lparr>entry_date = row_date r, entry_status = row_status r,
                           entry_message = row_message r,
                           entry_timeSlots = js_or (row_time_slots r) (Arr [])\<rparr>\<rparr>, [])"
  by (simp add: route_read_def select_single_def get_availability_date_def ok_def
      thrown_unless_not_found_def)

lemma same_date_same_row:
  "unique_dates t \<Longrightarrow> r \<in> set t \<Longrightarrow> r' \<in> set t \<Longrightarrow> row_date r = row_date r' \<Longrightarrow> r = r'"
  unfolding unique_dates_def by (auto simp: distinct_map dest: inj_onD)

subsection \<open>The table under save and delete\<close>

text \<open>
  Both writes keep the dates of the table unique, and a save leaves under its date
  exactly the row it was given.
\<close>

lemma table_after_save:
  "snd (route_save b t None) =
     (if rows_for (body_date b) t = [] then t @ [upsert_payload b]
      else map (\<lambda>r. if row_date r = body_date b then upsert_payload b else r) t)"
  by (simp add: route_save_def upsert_def upsert_payload_def)

lemma table_after_delete:
  "snd (route_delete d t None) = filter (\<lambda>r. row_date r \<noteq> d) t"
  by (simp add: route_delete_def delete_eq_def)

lemma row_date_payload: "row_date (upsert_payload b) = body_date b"
  by (simp add: upsert_payload_def)

lemma replace_dates:
  "row_date p = d \<Longrightarrow>
   map row_date (map (\<lambda>r. if row_date r = d then p else r) t) = map row_date t"
  by (induction t) auto

lemma unique_dates_save: "unique_dates t \<Longrightarrow> unique_dates (snd (route_save b t fault))"
proof (cases fault)
  case None
  assume u: "unique_dates t"
  show ?thesis
  proof (cases "rows_for (body_date b) t = []")
    case True
    then show ?thesis using u None
      by (simp add: table_after_save unique_dates_def rows_for_empty_iff row_date_payload)
  next
    case False
    have same: "map row_date
            (map (\<lambda>r. if row_date r = body_date b then upsert_payload b else r) t)
          = map row_date t"
      by (rule replace_dates) (rule row_date_payload)
    have "snd (route_save b t None) =
            map (\<lambda>r. if row_date r = body_date b then upsert_payload b else r) t"
      using False by (simp add: table_after_save)
    then show ?thesis
      using u unfolding None unique_dates_def by (simp only: same)
  qed
next
  case (Some e)
  assume "unique_dates t"
  then show ?thesis using Some by (simp add: route_save_def upsert_def)
qed

lemma unique_dates_delete: "unique_dates t \<Longrightarrow> unique_dates (snd (route_delete d t fault))"
  by (cases fault) (simp_all add: route_delete_def delete_eq_def unique_dates_def distinct_map_filter)

lemma rows_for_replace:
  "row_date p = d \<Longrightarrow> rows_for d t \<noteq> [] \<Longrightarrow> unique_dates t \<Longrightarrow>
   rows_for d (map (\<lambda>r. if row_date r = d then p else r) t) = [p]"
  unfolding unique_dates_def rows_for_def
  by (induction t) (auto simp: filter_empty_conv image_iff)

lemma rows_for_other_save:
  "d \<noteq> body_date b \<Longrightarrow> rows_for d (snd (route_save b t None)) = rows_for d t"
proof -
  assume ne: "d \<noteq> body_date b"
  have "rows_for d (map (\<lambda>r. if row_date r = body_date b then upsert_payload b else r) t)
          = rows_for d t"
    using ne unfolding rows_for_def by (induction t) (auto simp: row_date_payload)
  moreover have "rows_for d (t @ [upsert_payload b]) = rows_for d t"
    using ne by (simp add: rows_for_def row_date_payload)
  ultimately show ?thesis by (simp add: table_after_save)
qed

lemma rows_for_saved:
  assumes "unique_dates t"
  shows "rows_for (body_date b) (snd (route_save b t None)) = [upsert_payload b]"
proof (cases "rows_for (body_date b) t = []")
  case True
  then show ?thesis
    by (simp add: table_after_save) (simp add: rows_for_def row_date_payload)
next
  case False
  then show ?thesis
    using rows_for_replace [OF row_date_payload False assms]
    by (simp add: table_after_save)
qed

lemma replace_twice:
  "row_date p = d \<Longrightarrow>
   map (\<lambda>r. if row_date r = d then p else r) (map (\<lambda>r. if row_date r = d then p else r) t)
     = map (\<lambda>r. if row_date r = d then p else r) t"
  by (induction t) auto

lemma replace_absent:
  "rows_for d t = [] \<Longrightarrow> map (\<lambda>r. if row_date r = d then p else r) t = t"
  unfolding rows_for_def by (induction t) (auto split: if_splits)

lemma rows_for_replace_nonempty:
  "row_date p = d \<Longrightarrow> rows_for d t \<noteq> [] \<Longrightarrow>
   rows_for d (map (\<lambda>r. if row_date r = d then p else r) t) \<noteq> []"
  unfolding rows_for_def by (induction t) (auto split: if_splits)

lemma route_delete_status:
  "http_status (fst (fst (route_delete d t fault))) = (if fault = None then 200 else 500)"
  by (cases fault)
     (simp_all add: route_delete_def delete_eq_def failure_def delete_availability_def
        ok_def caught_def)

subsection \<open>The list route and the present day\<close>

text \<open>
  Claim C1 says that \<open>nextAvailable\<close> is the earliest stored date that is available and
  on or after the current date. The handler compares the row's date, read as midnight
  UTC, with the present instant, so a row dated today qualifies at midnight sharp and
  no longer one millisecond later. At nine o'clock UTC on 2024-01-01, with 2024-01-01
  and 2024-01-02 both stored as available, the row of 2024-01-01 is on the current day,
  yet the response names 2024-01-02; and with 2024-01-01 alone in the table,
  \<open>nextAvailable\<close> is null.
\<close>

theorem next_available_skips_today:
  "parse_date_only ''2024-01-01'' = Some jan_1_midnight
   \<and> utc_day jan_1_midnight = utc_day jan_1_morning
   \<and> route_list parse_date_only jan_1_morning two_open_days None =
       (\<lparr>http_status = 200,
         http_body = Listing
           [(''2024-01-01'', \<lparr>day_status = Str ''available'', day_message = Null,
                               day_timeSlots = Arr [Str ''9am'']\<rparr>),
            (''2024-01-02'', \<lparr>day_status = Str ''available'', day_message = Null,
                               day_timeSlots = Arr [Str ''10am'']\<rparr>)]
           (Some \<lparr>next_date = ''2024-01-02'', next_timeSlots = Arr [Str ''10am'']\<rparr>)
           jan_1_morning\<rparr>, [])
   \<and> listing_next (route_list parse_date_only jan_1_morning (take 1 two_open_days) None)
       = None
   \<and> listing_next (route_list parse_date_only jan_1_midnight two_open_days None)
       = Some \<lparr>next_date = ''2024-01-01'', next_timeSlots = Arr [Str ''9am'']\<rparr>
   \<and> listing_next (route_list parse_date_only (jan_1_midnight + 1) two_open_days None)
       = Some \<lparr>next_date = ''2024-01-02'', next_timeSlots = Arr [Str ''10am'']\<rparr>"
  by (simp add: route_defs query_defs handler_defs object_defs date_defs input_defs
      listing_next_def)

subsection \<open>Reading a date that has no row\<close>

text \<open>
  Claim C2: for every date string with no stored row, the single-date read answers with
  status 200 and the default record: the requested date, status \<open>available\<close>, a null
  message and no time slots.
\<close>

theorem read_absent_date_default:
  "d \<notin> set (map row_date t) \<Longrightarrow>
   route_read d t None =
     (\<lparr>http_status = 200,
       http_body = Single \<lparr>entry_date = d, entry_status = Str ''available'',
                           entry_message = Null, entry_timeSlots = Arr []\<rparr>\<rparr>, [])"
  using route_read_absent [of d t] by (simp add: rows_for_empty_iff default_entry_def)

theorem read_absent_date_default_witness:
  "''2024-01-03'' \<notin> set (map row_date scenario)
   \<and> route_read ''2024-01-03'' scenario None =
     (\<lparr>http_status = 200,
       http_body = Single \<lparr>entry_date = ''2024-01-03'', entry_status = Str ''available'',
                           entry_message = Null, entry_timeSlots = Arr []\<rparr>\<rparr>, [])"
  using read_absent_date_default [of "''2024-01-03''" scenario]
  by (simp add: scenario_def)

subsection \<open>Saving twice\<close>

text \<open>
  Claim C3: the save operation is idempotent. For every request body, saving it a second
  time leaves the table as the first save left it. The save is keyed on the date: on a
  table with unique dates the row of the body's date is afterwards the body's row, with
  all four fields, and the rows of every other date are as before.
\<close>

theorem save_twice_same_table:
  "snd (route_save b (snd (route_save b t None)) None) = snd (route_save b t None)
   \<and> (unique_dates t \<longrightarrow>
        rows_for (body_date b) (snd (route_save b t None)) = [upsert_payload b])
   \<and> (d \<noteq> body_date b \<longrightarrow> rows_for d (snd (route_save b t None)) = rows_for d t)"
proof -
  let ?p = "upsert_payload b" and ?d = "body_date b"
  let ?f = "\<lambda>r. if row_date r = ?d then ?p else r"
  have pd: "row_date ?p = ?d" by (rule row_date_payload)
  have twice: "snd (route_save b (snd (route_save b t None)) None) = snd (route_save b t None)"
  proof (cases "rows_for ?d t = []")
    case True
    have "rows_for ?d (t @ [?p]) \<noteq> []"
      by (simp add: rows_for_def pd)
    moreover have "map ?f (t @ [?p]) = t @ [?p]"
      using replace_absent [OF True] by (simp add: pd)
    ultimately show ?thesis using True by (simp add: table_after_save)
  next
    case False
    have "rows_for ?d (map ?f t) \<noteq> []"
      using pd False by (rule rows_for_replace_nonempty)
    moreover have "map ?f (map ?f t) = map ?f t"
      using pd by (rule replace_twice)
    ultimately show ?thesis using False by (simp only: table_after_save if_False)
  qed
  show ?thesis using twice rows_for_saved [of t b] rows_for_other_save [of d b t] by blast
qed

theorem save_twice_same_table_witness:
  "unique_dates scenario \<and> ''2024-01-02'' \<noteq> body_date closed_jan_1
   \<and> snd (route_save closed_jan_1 (snd (route_save closed_jan_1 scenario None)) None)
       = snd (route_save closed_jan_1 scenario None)
   \<and> rows_for ''2024-01-01'' (snd (route_save closed_jan_1 scenario None))
       = [\<lparr>row_date = ''2024-01-01'', row_status = Str ''unavailable'',
           row_message = Str ''holiday'', row_time_slots = Arr []\<rparr>]
   \<and> rows_for ''2024-01-02'' (snd (route_save closed_jan_1 scenario None))
       = [\<lparr>row_date = ''2024-01-02'', row_status = Str ''unavailable'',
           row_message = Str ''closed'', row_time_slots = Arr []\<rparr>]"
  using save_twice_same_table [of closed_jan_1 scenario "''2024-01-02''"]
  by (simp add: unique_dates_def scenario_def closed_jan_1_def upsert_payload_def rows_for_def)

subsection \<open>Failures of the store\<close>

text \<open>
  Claim C4 says that every operation answers a store failure with a generic message
  only. The status probe does not: its response carries the message of the store's
  error.
\<close>

theorem status_failure_discloses_message:
  "route_status scenario (Some refused) =
     (\<lparr>http_status = 500, http_body = Disconnected ''connection refused''\<rparr>,
      [Console_error ''Database connection error:''
         (Store_Error \<lparr>err_code = ''08006'', err_message = ''connection refused''\<rparr>)])"
  by (simp add: route_status_def select_limit_def failure_def get_status_def refused_def)

text \<open>
  Claim C4, amended: for the list, single-date read, save and delete operations, every
  store failure (for the single-date read, every error whose code is not \<open>PGRST116\<close>) is
  logged with the error object and answered with status 500 and a fixed message that
  does not depend on the error. The status probe logs the error object and answers with
  status 500 as well, and its body is \<open>{ status: 'disconnected', error: m }\<close> with \<open>m\<close> the
  message of the store's error.
\<close>

theorem store_failure_outcomes:
  "route_list parse now t (Some e) =
     (\<lparr>http_status = 500, http_body = Failed ''Failed to fetch availability''\<rparr>,
      [Console_error ''Error fetching availability:'' (Store_Error e)])
   \<and> (err_code e \<noteq> ''PGRST116'' \<longrightarrow>
        route_read d t (Some e) =
          (\<lparr>http_status = 500, http_body = Failed ''Failed to fetch date''\<rparr>,
           [Console_error ''Error fetching date:'' (Store_Error e)]))
   \<and> fst (route_save b t (Some e)) =
       (\<lparr>http_status = 500, http_body = Failed ''Failed to save availability''\<rparr>,
        [Console_error ''Error saving availability:'' (Store_Error e)])
   \<and> fst (route_delete d t (Some e)) =
       (\<lparr>http_status = 500, http_body = Failed ''Failed to delete availability''\<rparr>,
        [Console_error ''Error deleting availability:'' (Store_Error e)])
   \<and> fst (route_status t (Some e)) =
       \<lparr>http_status = 500, http_body = Disconnected (err_message e)\<rparr>
   \<and> last (snd (route_status t (Some e))) =
       Console_error ''Database connection error:'' (Store_Error e)"
proof -
  have "route_list parse now t (Some e) =
     (\<lparr>http_status = 500, http_body = Failed ''Failed to fetch availability''\<rparr>,
      [Console_error ''Error fetching availability:'' (Store_Error e)])"
    by (simp add: route_list_def select_ordered_def failure_def get_availability_def caught_def)
  moreover have "err_code e \<noteq> ''PGRST116'' \<longrightarrow>
        route_read d t (Some e) =
          (\<lparr>http_status = 500, http_body = Failed ''Failed to fetch date''\<rparr>,
           [Console_error ''Error fetching date:'' (Store_Error e)])"
    by (simp add: route_read_def select_single_def failure_def get_availability_date_def
        thrown_unless_not_found_def caught_def)
  moreover have "fst (route_save b t (Some e)) =
       (\<lparr>http_status = 500, http_body = Failed ''Failed to save availability''\<rparr>,
        [Console_error ''Error saving availability:'' (Store_Error e)])"
    by (simp add: route_save_def upsert_def failure_def post_availability_def caught_def)
  moreover have "fst (route_delete d t (Some e)) =
       (\<lparr>http_status = 500, http_body = Failed ''Failed to delete availability''\<rparr>,
        [Console_error ''Error deleting availability:'' (Store_Error e)])"
    by (simp add: route_delete_def delete_eq_def failure_def delete_availability_def
        caught_def)
  moreover have "fst (route_status t (Some e)) =
       \<lparr>http_status = 500, http_body = Disconnected (err_message e)\<rparr>"
    by (simp add: route_status_def select_limit_def failure_def get_status_def)
  moreover have "last (snd (route_status t (Some e))) =
       Console_error ''Database connection error:'' (Store_Error e)"
    by (simp add: route_status_def select_limit_def failure_def get_status_def)
  ultimately show ?thesis by blast
qed

theorem store_failure_outcomes_witness:
  "err_code refused \<noteq> ''PGRST116''
   \<and> route_list parse_date_only jan_1_morning scenario (Some refused) =
     (\<lparr>http_status = 500, http_body = Failed ''Failed to fetch availability''\<rparr>,
      [Console_error ''Error fetching availability:'' (Store_Error refused)])
   \<and> route_read ''2024-01-01'' scenario (Some refused) =
       (\<lparr>http_status = 500, http_body = Failed ''Failed to fetch date''\<rparr>,
        [Console_error ''Error fetching date:'' (Store_Error refused)])
   \<and> fst (route_save closed_jan_1 scenario (Some refused)) =
       (\<lparr>http_status = 500, http_body = Failed ''Failed to save availability''\<rparr>,
        [Console_error ''Error saving availability:'' (Store_Error refused)])
   \<and> fst (route_delete ''2024-01-01'' scenario (Some refused)) =
       (\<lparr>http_status = 500, http_body = Failed ''Failed to delete availability''\<rparr>,
        [Console_error ''Error deleting availability:'' (Store_Error refused)])
   \<and> fst (route_status scenario (Some refused)) =
       \<lparr>http_status = 500, http_body = Disconnected ''connection refused''\<rparr>
   \<and> last (snd (route_status scenario (Some refused))) =
       Console_error ''Database connection error:'' (Store_Error refused)"
  using store_failure_outcomes
    [of parse_date_only jan_1_morning scenario refused "''2024-01-01''" closed_jan_1]
  by (simp add: refused_def)

subsection \<open>Reading a date that has a row\<close>

text \<open>
  Claim C5: for every stored row, the single-date read answers with status 200 and the
  row's date, status and message, and with \<open>timeSlots\<close> equal to the stored slot sequence
  if it is non-null, and to the empty sequence if the stored slot data is null or
  missing.
\<close>

theorem read_stored_row:
  "unique_dates t \<Longrightarrow> r \<in> set t \<Longrightarrow> slot_data (row_time_slots r) \<Longrightarrow>
   route_read (row_date r) t None =
     (\<lparr>http_status = 200,
       http_body = Single
         \<lparr>entry_date = row_date r, entry_status = row_status r,
          entry_message = row_message r,
          entry_timeSlots =
            (if row_time_slots r = Null \<or> row_time_slots r = Undefined then Arr []
             else row_time_slots r)\<rparr>\<rparr>, [])"
proof -
  assume u: "unique_dates t" and r: "r \<in> set t" and s: "slot_data (row_time_slots r)"
  have "js_or (row_time_slots r) (Arr []) =
          (if row_time_slots r = Null \<or> row_time_slots r = Undefined then Arr []
           else row_time_slots r)"
    using s by (cases "row_time_slots r") (simp_all add: js_or_def)
  then show ?thesis
    using route_read_present [OF rows_for_unique [OF u r]] by simp
qed

theorem read_stored_row_witness:
  "unique_dates (open_without_slots # scenario)
   \<and> scenario ! 1 \<in> set (open_without_slots # scenario)
   \<and> slot_data (row_time_slots (scenario ! 1))
   \<and> open_without_slots \<in> set (open_without_slots # scenario)
   \<and> slot_data (row_time_slots open_without_slots)
   \<and> route_read ''2024-01-01'' (open_without_slots # scenario) None =
       (\<lparr>http_status = 200,
         http_body = Single
           \<lparr>entry_date = ''2024-01-01'', entry_status = Str ''available'',
            entry_message = Null, entry_timeSlots = Arr [Str ''9am'']\<rparr>\<rparr>, [])
   \<and> route_read ''2024-01-05'' (open_without_slots # scenario) None =
       (\<lparr>http_status = 200,
         http_body = Single
           \<lparr>entry_date = ''2024-01-05'', entry_status = Str ''available'',
            entry_message = Null, entry_timeSlots = Arr []\<rparr>\<rparr>, [])"
  using read_stored_row [of "open_without_slots # scenario" "scenario ! 1"]
    read_stored_row [of "open_without_slots # scenario" open_without_slots]
  by (simp add: unique_dates_def scenario_def open_without_slots_def)

subsection \<open>Field names\<close>

text \<open>
  Claim C6 says that the handler translates between the wire's \<open>timeSlots\<close> and the
  column \<open>time_slots\<close> in both directions, and that the list and the single-date read
  return what is stored with no field silently dropped. A day saved under the date
  string \<open>__proto__\<close> is stored with its four fields, and the single-date read returns
  them; but the list that follows has no entry for it, so all its fields are dropped:
  the assignment to \<open>days\<close> under that key replaces the prototype of the object and
  creates no property.
\<close>

theorem proto_day_missing_from_list:
  "snd (route_save proto_request [] None) =
     [\<lparr>row_date = ''__proto__'', row_status = Str ''available'',
       row_message = Null, row_time_slots = Arr [Str ''9am'']\<rparr>]
   \<and> route_read ''__proto__'' (snd (route_save proto_request [] None)) None =
       (\<lparr>http_status = 200,
         http_body = Single
           \<lparr>entry_date = ''__proto__'', entry_status = Str ''available'',
            entry_message = Null, entry_timeSlots = Arr [Str ''9am'']\<rparr>\<rparr>, [])
   \<and> route_list parse_date_only jan_1_morning (snd (route_save proto_request [] None)) None =
       (\<lparr>http_status = 200, http_body = Listing [] None jan_1_morning\<rparr>, [])"
  by (simp add: route_defs query_defs handler_defs object_defs input_defs)

text \<open>
  For every other date the translation is as the claim has it. On a table with unique
  dates, the save writes the body's \<open>date\<close>, \<open>status\<close>, \<open>message\<close> and \<open>timeSlots\<close>
  into the columns \<open>date\<close>, \<open>status\<close>, \<open>message\<close> and \<open>time_slots\<close> of the row of that
  date. For every stored row, the single-date read returns all four columns,
  \<open>time_slots\<close> as \<open>timeSlots\<close> through \<open>|| []\<close>; and for every stored row whose date is
  not \<open>__proto__\<close>, the list returns, under the row's date, its \<open>status\<close>, \<open>message\<close>
  and \<open>time_slots\<close>, the last as \<open>timeSlots\<close>. So what a save wrote comes back under
  the wire's names from both reads.
\<close>

lemma field_names_both_ways:
  "unique_dates t \<Longrightarrow>
   rows_for (body_date b) (snd (route_save b t None)) =
     [\<lparr>row_date = body_date b, row_status = body_status b,
       row_message = body_message b, row_time_slots = body_timeSlots b\<rparr>]
   \<and> (\<forall>r \<in> set t. row_date r \<noteq> ''__proto__'' \<longrightarrow>
         map_of (listing_days (route_list parse now t None)) (row_date r) =
           Some \<lparr>day_status = row_status r, day_message = row_message r,
                 day_timeSlots = row_time_slots r\<rparr>)
   \<and> (\<forall>r \<in> set t.
         route_read (row_date r) t None =
           (\<lparr>http_status = 200,
             http_body = Single
               \<lparr>entry_date = row_date r, entry_status = row_status r,
                entry_message = row_message r,
                entry_timeSlots = js_or (row_time_slots r) (Arr [])\<rparr>\<rparr>, []))
   \<and> (body_date b \<noteq> ''__proto__'' \<longrightarrow>
         map_of (listing_days (route_list parse now (snd (route_save b t None)) None))
             (body_date b) =
           Some \<lparr>day_status = body_status b, day_message = body_message b,
                 day_timeSlots = body_timeSlots b\<rparr>)
   \<and> route_read (body_date b) (snd (route_save b t None)) None =
       (\<lparr>http_status = 200,
         http_body = Single
           \<lparr>entry_date = body_date b, entry_status = body_status b,
            entry_message = body_message b,
            entry_timeSlots = js_or (body_timeSlots b) (Arr [])\<rparr>\<rparr>, [])"
proof -
  assume u: "unique_dates t"
  let ?t' = "snd (route_save b t None)"
  have saved: "rows_for (body_date b) ?t' = [upsert_payload b]"
    using u by (rule rows_for_saved)
  then have "upsert_payload b \<in> set (rows_for (body_date b) ?t')"
    by simp
  then have in_t': "upsert_payload b \<in> set ?t'"
    by (simp add: rows_for_def)
  have u': "unique_dates ?t'"
    using u by (rule unique_dates_save)
  have "rows_for (body_date b) ?t' =
     [\<lparr>row_date = body_date b, row_status = body_status b,
       row_message = body_message b, row_time_slots = body_timeSlots b\<rparr>]"
    using saved by (simp add: upsert_payload_def)
  moreover have "\<forall>r \<in> set t. row_date r \<noteq> ''__proto__'' \<longrightarrow>
         map_of (listing_days (route_list parse now t None)) (row_date r) =
           Some \<lparr>day_status = row_status r, day_message = row_message r,
                 day_timeSlots = row_time_slots r\<rparr>"
    using listing_days_route_list [OF u] by (simp add: day_of_row_def)
  moreover have "\<forall>r \<in> set t.
         route_read (row_date r) t None =
           (\<lparr>http_status = 200,
             http_body = Single
               \<lparr>entry_date = row_date r, entry_status = row_status r,
                entry_message = row_message r,
                entry_timeSlots = js_or (row_time_slots r) (Arr [])\<rparr>\<rparr>, [])"
    using route_read_present [OF rows_for_unique [OF u]] by blast
  moreover have "body_date b \<noteq> ''__proto__'' \<longrightarrow>
         map_of (listing_days (route_list parse now ?t' None)) (body_date b) =
           Some \<lparr>day_status = body_status b, day_message = body_message b,
                 day_timeSlots = body_timeSlots b\<rparr>"
    using listing_days_route_list [OF u' in_t', of parse now]
    by (simp add: day_of_row_def upsert_payload_def)
  moreover have "route_read (body_date b) ?t' None =
       (\<lparr>http_status = 200,
         http_body = Single
           \<lparr>entry_date = body_date b, entry_status = body_status b,
            entry_message = body_message b,
            entry_timeSlots = js_or (body_timeSlots b) (Arr [])\<rparr>\<rparr>, [])"
    using route_read_present [OF saved] by (simp add: upsert_payload_def)
  ultimately show ?thesis by blast
qed

lemma field_names_both_ways_example:
  "unique_dates scenario \<and> unique_dates []
   \<and> scenario ! 1 \<in> set scenario \<and> row_date (scenario ! 1) \<noteq> ''__proto__''
   \<and> body_date closed_jan_1 \<noteq> ''__proto__''
   \<and> rows_for ''2024-01-01'' (snd (route_save closed_jan_1 [] None)) =
       [\<lparr>row_date = ''2024-01-01'', row_status = Str ''unavailable'',
         row_message = Str ''holiday'', row_time_slots = Arr []\<rparr>]
   \<and> rows_for ''2024-01-01'' (snd (route_save closed_jan_1 scenario None)) =
       [\<lparr>row_date = ''2024-01-01'', row_status = Str ''unavailable'',
         row_message = Str ''holiday'', row_time_slots = Arr []\<rparr>]
   \<and> map_of (listing_days (route_list parse_date_only jan_1_morning scenario None))
         ''2024-01-01'' =
       Some \<lparr>day_status = Str ''available'', day_message = Null,
             day_timeSlots = Arr [Str ''9am'']\<rparr>
   \<and> route_read ''2024-01-01'' scenario None =
       (\<lparr>http_status = 200,
         http_body = Single
           \<lparr>entry_date = ''2024-01-01'', entry_status = Str ''available'',
            entry_message = Null, entry_timeSlots = Arr [Str ''9am'']\<rparr>\<rparr>, [])
   \<and> map_of (listing_days (route_list parse_date_only jan_1_morning
           (snd (route_save closed_jan_1 scenario None)) None)) ''2024-01-01'' =
       Some \<lparr>day_status = Str ''unavailable'', day_message = Str ''holiday'',
             day_timeSlots = Arr []\<rparr>
   \<and> route_read ''2024-01-01'' (snd (route_save closed_jan_1 scenario None)) None =
       (\<lparr>http_status = 200,
         http_body = Single
           \<lparr>entry_date = ''2024-01-01'', entry_status = Str ''unavailable'',
            entry_message = Str ''holiday'', entry_timeSlots = Arr []\<rparr>\<rparr>, [])"
  using field_names_both_ways [of scenario closed_jan_1 parse_date_only jan_1_morning]
    field_names_both_ways [of "[]" closed_jan_1 parse_date_only jan_1_morning]
  by (simp add: unique_dates_def scenario_def closed_jan_1_def js_or_def)

subsection \<open>Deleting\<close>

text \<open>
  Claim C7: for every date string with no stored row, the delete operation answers with
  status 200 and \<open>{ success: true }\<close>, writes nothing to the console and leaves the
  table as it was.
\<close>

theorem delete_absent_date_succeeds:
  "d \<notin> set (map row_date t) \<Longrightarrow>
   route_delete d t None = ((\<lparr>http_status = 200, http_body = Deleted\<rparr>, []), t)"
proof -
  assume "d \<notin> set (map row_date t)"
  then have "filter (\<lambda>r. row_date r \<noteq> d) t = t"
    by (auto simp: filter_id_conv)
  then show ?thesis
    by (simp add: route_delete_def delete_eq_def delete_availability_def ok_def)
qed

theorem delete_absent_date_succeeds_witness:
  "''2024-01-03'' \<notin> set (map row_date scenario)
   \<and> route_delete ''2024-01-03'' scenario None =
       ((\<lparr>http_status = 200, http_body = Deleted\<rparr>, []), scenario)"
  using delete_absent_date_succeeds [of "''2024-01-03''" scenario]
  by (simp add: scenario_def)

text \<open>
  Claim C8: for every date string and every table, after a delete for that date that
  answered with success, a single-date read for the same date returns the default
  record.
\<close>

theorem read_after_delete_default:
  "http_status (fst (fst (route_delete d t fault))) = 200 \<Longrightarrow>
   route_read d (snd (route_delete d t fault)) None =
     (\<lparr>http_status = 200,
       http_body = Single \<lparr>entry_date = d, entry_status = Str ''available'',
                           entry_message = Null, entry_timeSlots = Arr []\<rparr>\<rparr>, [])"
proof -
  assume "http_status (fst (fst (route_delete d t fault))) = 200"
  then have f: "fault = None"
    by (simp add: route_delete_status split: if_splits)
  have "rows_for d (filter (\<lambda>r. row_date r \<noteq> d) t) = []"
    by (simp add: rows_for_def filter_empty_conv)
  then show ?thesis
    using route_read_absent [of d "filter (\<lambda>r. row_date r \<noteq> d) t"]
    by (simp add: f table_after_delete default_entry_def)
qed

theorem read_after_delete_default_witness:
  "http_status (fst (fst (route_delete ''2024-01-02'' scenario None))) = 200
   \<and> route_read ''2024-01-02'' (snd (route_delete ''2024-01-02'' scenario None)) None =
     (\<lparr>http_status = 200,
       http_body = Single \<lparr>entry_date = ''2024-01-02'', entry_status = Str ''available'',
                           entry_message = Null, entry_timeSlots = Arr []\<rparr>\<rparr>, [])"
  using read_after_delete_default [of "''2024-01-02''" scenario None]
  by (simp add: route_delete_status)

subsection \<open>Slot data in the list\<close>

text \<open>
  Claim C9 says that the list passes stored slot data through as it is: for a stored
  row whose \<open>time_slots\<close> is null, the entry of its date in \<open>days\<close> has \<open>timeSlots\<close> null.
  With two such rows stored, one under 2024-01-05 and one under the date string
  \<open>__proto__\<close>, the store returns both, the first has its entry with \<open>timeSlots\<close> null,
  and the second has no entry in \<open>days\<close> at all.
\<close>

theorem proto_day_without_entry:
  "reply_data (select_ordered [proto_without_slots, open_without_slots] None) =
     Some [open_without_slots, proto_without_slots]
   \<and> row_time_slots proto_without_slots = Null
   \<and> listing_days (route_list parse_date_only jan_1_morning
         [proto_without_slots, open_without_slots] None) =
       [(''2024-01-05'',
         \<lparr>day_status = Str ''available'', day_message = Null, day_timeSlots = Null\<rparr>)]
   \<and> map_of (listing_days (route_list parse_date_only jan_1_morning
         [proto_without_slots, open_without_slots] None))
       (row_date proto_without_slots) = None"
  by (simp add: route_defs query_defs handler_defs object_defs date_defs input_defs
      listing_days_def)

text \<open>
  For every other date the list does pass the stored value through. On a table with
  unique dates, for every stored row whose date is not \<open>__proto__\<close>, the entry of its
  date in \<open>days\<close> holds the row's \<open>status\<close> and \<open>message\<close> and, as \<open>timeSlots\<close>, the very
  value stored in \<open>time_slots\<close>; and for every stored row, if \<open>nextAvailable\<close> names its
  date then \<open>nextAvailable.timeSlots\<close> is that stored value too. In particular a stored
  null stays null in both places, while the single-date read of a row whose
  \<open>time_slots\<close> is null answers with the empty sequence.
\<close>

lemma list_keeps_time_slots_verbatim:
  "unique_dates t \<Longrightarrow> r \<in> set t \<Longrightarrow>
   (row_date r \<noteq> ''__proto__'' \<longrightarrow>
      map_of (listing_days (route_list parse now t None)) (row_date r) =
        Some \<lparr>day_status = row_status r, day_message = row_message r,
              day_timeSlots = row_time_slots r\<rparr>)
   \<and> (\<forall>n. listing_next (route_list parse now t None) = Some n
            \<and> next_date n = row_date r
          \<longrightarrow> next_timeSlots n = row_time_slots r)
   \<and> (row_time_slots r = Null \<longrightarrow>
        route_read (row_date r) t None =
          (\<lparr>http_status = 200,
            http_body = Single
              \<lparr>entry_date = row_date r, entry_status = row_status r,
               entry_message = row_message r, entry_timeSlots = Arr []\<rparr>\<rparr>, []))"
proof -
  assume u: "unique_dates t" and r: "r \<in> set t"
  let ?out = "route_list parse now t None"
  have days: "row_date r \<noteq> ''__proto__'' \<longrightarrow>
      map_of (listing_days ?out) (row_date r) =
        Some \<lparr>day_status = row_status r, day_message = row_message r,
              day_timeSlots = row_time_slots r\<rparr>"
    using listing_days_route_list [OF u r] by (simp add: day_of_row_def)
  have "next_timeSlots n = row_time_slots r"
    if n: "listing_next ?out = Some n" and date: "next_date n = row_date r" for n
  proof -
    from listing_next_row [OF n] obtain r' where r': "r' \<in> set t" and eq: "n = next_of_row r'"
      by blast
    from date eq have "row_date r' = row_date r" by (simp add: next_of_row_def)
    with same_date_same_row [OF u r' r] have "r' = r" by simp
    with eq show ?thesis by (simp add: next_of_row_def)
  qed
  moreover have "row_time_slots r = Null \<longrightarrow>
        route_read (row_date r) t None =
          (\<lparr>http_status = 200,
            http_body = Single
              \<lparr>entry_date = row_date r, entry_status = row_status r,
               entry_message = row_message r, entry_timeSlots = Arr []\<rparr>\<rparr>, [])"
    using route_read_present [OF rows_for_unique [OF u r]] by (simp add: js_or_def)
  ultimately show ?thesis using days by blast
qed

lemma list_keeps_time_slots_verbatim_example:
  "unique_dates (open_without_slots # scenario)
   \<and> open_without_slots \<in> set (open_without_slots # scenario)
   \<and> row_date open_without_slots \<noteq> ''__proto__''
   \<and> row_time_slots open_without_slots = Null
   \<and> \<lparr>row_date = ''2024-01-01'', row_status = Str ''available'',
        row_message = Null, row_time_slots = Arr [Str ''9am'']\<rparr>
       \<in> set (open_without_slots # scenario)
   \<and> map_of (listing_days
          (route_list parse_date_only dec_31_midnight (open_without_slots # scenario) None))
          ''2024-01-05'' =
       Some \<lparr>day_status = Str ''available'', day_message = Null, day_timeSlots = Null\<rparr>
   \<and> map_of (listing_days
          (route_list parse_date_only dec_31_midnight (open_without_slots # scenario) None))
          ''2024-01-01'' =
       Some \<lparr>day_status = Str ''available'', day_message = Null,
             day_timeSlots = Arr [Str ''9am'']\<rparr>
   \<and> listing_next
         (route_list parse_date_only dec_31_midnight (open_without_slots # scenario) None)
       = Some \<lparr>next_date = ''2024-01-01'', next_timeSlots = Arr [Str ''9am'']\<rparr>
   \<and> listing_next
         (route_list parse_date_only jan_1_morning (open_without_slots # scenario) None)
       = Some \<lparr>next_date = ''2024-01-05'', next_timeSlots = Null\<rparr>
   \<and> route_read ''2024-01-05'' (open_without_slots # scenario) None =
       (\<lparr>http_status = 200,
         http_body = Single
           \<lparr>entry_date = ''2024-01-05'', entry_status = Str ''available'',
            entry_message = Null, entry_timeSlots = Arr []\<rparr>\<rparr>, [])"
proof -
  let ?t = "open_without_slots # scenario"
  have u: "unique_dates ?t"
    by (simp add: unique_dates_def scenario_def open_without_slots_def)
  have m5: "open_without_slots \<in> set ?t"
    by simp
  let ?r1 = "\<lparr>row_date = ''2024-01-01'', row_status = Str ''available'',
       row_message = Null, row_time_slots = Arr [Str ''9am'']\<rparr>"
  have m1: "?r1 \<in> set ?t"
    by (simp add: scenario_def)
  have r5: "open_without_slots =
      \<lparr>row_date = ''2024-01-05'', row_status = Str ''available'',
       row_message = Null, row_time_slots = Null\<rparr>"
    by (simp add: open_without_slots_def)
  have early: "listing_next (route_list parse_date_only dec_31_midnight ?t None)
       = Some \<lparr>next_date = ''2024-01-01'', next_timeSlots = Arr [Str ''9am'']\<rparr>"
    by (simp add: route_defs query_defs handler_defs object_defs date_defs input_defs
        listing_next_def)
  have later: "listing_next (route_list parse_date_only jan_1_morning ?t None)
       = Some \<lparr>next_date = ''2024-01-05'', next_timeSlots = Null\<rparr>"
    by (simp add: route_defs query_defs handler_defs object_defs date_defs input_defs
        listing_next_def)
  have e5: "map_of (listing_days (route_list parse_date_only dec_31_midnight ?t None))
          ''2024-01-05'' =
       Some \<lparr>day_status = Str ''available'', day_message = Null, day_timeSlots = Null\<rparr>"
    using list_keeps_time_slots_verbatim [OF u m5, of parse_date_only dec_31_midnight]
    by (simp add: r5)
  have e1: "map_of (listing_days (route_list parse_date_only dec_31_midnight ?t None))
          ''2024-01-01'' =
       Some \<lparr>day_status = Str ''available'', day_message = Null,
             day_timeSlots = Arr [Str ''9am'']\<rparr>"
    using list_keeps_time_slots_verbatim [OF u m1, of parse_date_only dec_31_midnight]
    by simp
  have read: "route_read ''2024-01-05'' ?t None =
       (\<lparr>http_status = 200,
         http_body = Single
           \<lparr>entry_date = ''2024-01-05'', entry_status = Str ''available'',
            entry_message = Null, entry_timeSlots = Arr []\<rparr>\<rparr>, [])"
    using list_keeps_time_slots_verbatim [OF u m5, of parse_date_only jan_1_morning]
    by (simp add: r5)
  have "row_date open_without_slots \<noteq> ''__proto__''"
    and "row_time_slots open_without_slots = Null"
    by (simp_all add: r5)
  with u m5 m1 early later e5 e1 read show ?thesis by blast
qed

text \<open>
  Claim C10: the list response is consistent with itself. When the rows the store
  returns have pairwise different dates, as the key of the table makes them, and
  \<open>nextAvailable\<close> is not null, then its date is a key of \<open>days\<close>, the entry there has
  status \<open>available\<close>, and the entry's \<open>timeSlots\<close> is that of \<open>nextAvailable\<close>.
\<close>

theorem listing_consistent:
  "distinct (map row_date data) \<Longrightarrow>
   listing_next (get_availability parse now \<lparr>reply_data = Some data, reply_error = None\<rparr>)
     = Some n \<Longrightarrow>
   (\<exists>e. map_of (listing_days
            (get_availability parse now \<lparr>reply_data = Some data, reply_error = None\<rparr>))
          (next_date n) = Some e
        \<and> day_status e = Str ''available''
        \<and> day_timeSlots e = next_timeSlots n)"
proof -
  let ?out = "get_availability parse now \<lparr>reply_data = Some data, reply_error = None\<rparr>"
  assume d: "distinct (map row_date data)" and n: "listing_next ?out = Some n"
  have out: "?out =
     (\<lparr>http_status = 200,
       http_body = Listing (fst (forEach_day parse now data ([], None)))
                     (snd (forEach_day parse now data ([], None))) now\<rparr>, [])"
    by (rule get_availability_ok) simp_all
  from n obtain r where f: "find (qualifies parse now) data = Some r"
    and eq: "n = next_of_row r"
    by (auto simp: out listing_next_def forEach_day_next)
  from find_Some_set [OF f] have r: "r \<in> set data" and q: "qualifies parse now r"
    by simp_all
  have "map_of (listing_days ?out) (row_date r) = Some (day_of_row r)"
    using forEach_day_lookup [OF d r qualifies_not_proto [OF q]]
    by (simp add: out listing_days_def)
  moreover have "day_status (day_of_row r) = Str ''available''"
    using q by (simp add: qualifies_def day_of_row_def)
  moreover have "day_timeSlots (day_of_row r) = next_timeSlots n"
    by (simp add: eq day_of_row_def next_of_row_def)
  moreover have "next_date n = row_date r"
    by (simp add: eq next_of_row_def)
  ultimately show ?thesis by simp
qed

theorem listing_consistent_witness:
  "distinct (map row_date (rev scenario))
   \<and> listing_next (get_availability parse_date_only dec_31_midnight
         \<lparr>reply_data = Some (rev scenario), reply_error = None\<rparr>)
       = Some \<lparr>next_date = ''2024-01-01'', next_timeSlots = Arr [Str ''9am'']\<rparr>
   \<and> (\<exists>e. map_of (listing_days (get_availability parse_date_only dec_31_midnight
                \<lparr>reply_data = Some (rev scenario), reply_error = None\<rparr>))
              ''2024-01-01'' = Some e
          \<and> day_status e = Str ''available''
          \<and> day_timeSlots e = Arr [Str ''9am''])"
proof -
  have d: "distinct (map row_date (rev scenario))"
    by (simp add: scenario_def)
  have n: "listing_next (get_availability parse_date_only dec_31_midnight
         \<lparr>reply_data = Some (rev scenario), reply_error = None\<rparr>)
       = Some \<lparr>next_date = ''2024-01-01'', next_timeSlots = Arr [Str ''9am'']\<rparr>"
    by (simp add: handler_defs object_defs date_defs input_defs listing_next_def)
  show ?thesis
    using d n listing_consistent [OF d n] by simp
qed

end
